theory Spec2Isabelle
  imports Main "HOL-Library.AList"
begin

section \<open>JavaScript string and array primitives used by the modules\<close>

text \<open>
  Strings are sequences of code units (\<open>string\<close>); every operation below works on the
  sequence uniformly, so the width of a unit plays no role. The backslash is written
  \<open>CHR 0x5C\<close>.
\<close>

text \<open>\<^verbatim>\<open>s.startsWith(p)\<close>\<close>

definition startsWith :: "string \<Rightarrow> string \<Rightarrow> bool" where
  "startsWith s p = (take (length p) s = p)"

text \<open>\<^verbatim>\<open>s.endsWith(p)\<close>\<close>

definition endsWith :: "string \<Rightarrow> string \<Rightarrow> bool" where
  "endsWith s p = (length p \<le> length s \<and> drop (length s - length p) s = p)"

text \<open>\<^verbatim>\<open>s.lastIndexOf(c)\<close> for a one-character search string: the index of the last
  occurrence, or \<open>-1\<close> when there is none.\<close>

definition lastIndexOf :: "string \<Rightarrow> char \<Rightarrow> int" where
  "lastIndexOf s c =
     (if c \<in> set s then int (length (dropWhile (\<lambda>x. x \<noteq> c) (rev s))) - 1 else - 1)"

text \<open>\<^verbatim>\<open>s.substring(start, end)\<close>: both indices are clamped to \<open>[0, length]\<close> (so a
  negative index counts as 0) and swapped when \<open>start > end\<close>.\<close>

definition substring :: "string \<Rightarrow> int \<Rightarrow> int \<Rightarrow> string" where
  "substring s start end =
     (let len = int (length s);
          a = max 0 (min start len);
          b = max 0 (min end len);
          lo = min a b;
          hi = max a b
      in take (nat (hi - lo)) (drop (nat lo) s))"

text \<open>\<^verbatim>\<open>s.substring(start)\<close>\<close>

definition substringFrom :: "string \<Rightarrow> int \<Rightarrow> string" where
  "substringFrom s start = substring s start (int (length s))"

text \<open>\<^verbatim>\<open>s.replace(pat, '')\<close> with a string pattern: only the first occurrence of
  \<open>pat\<close> is removed; without an occurrence the string is unchanged.\<close>

fun removeFirst :: "string \<Rightarrow> string \<Rightarrow> string" where
  "removeFirst [] pat = []"
| "removeFirst (c # cs) pat =
     (if startsWith (c # cs) pat then drop (length pat) (c # cs)
      else c # removeFirst cs pat)"

definition isSep :: "char \<Rightarrow> bool" where
  "isSep c = (c = CHR ''/'' \<or> c = CHR 0x5C)"

text \<open>\<^verbatim>\<open>s.replace(/^[\/\\]/, '')\<close>\<close>

definition stripLeadingSep :: "string \<Rightarrow> string" where
  "stripLeadingSep s = (case s of [] \<Rightarrow> [] | c # cs \<Rightarrow> if isSep c then cs else s)"

text \<open>\<^verbatim>\<open>s.replace(/^\//, '')\<close>\<close>

definition stripLeadingSlash :: "string \<Rightarrow> string" where
  "stripLeadingSlash s = (case s of [] \<Rightarrow> [] | c # cs \<Rightarrow> if c = CHR ''/'' then cs else s)"

text \<open>\<^verbatim>\<open>s.split(/[\/\\]/)\<close>: the segments between separators, empty ones included;
  the result always has at least one element.\<close>

fun splitSep :: "string \<Rightarrow> string list" where
  "splitSep [] = [[]]"
| "splitSep (c # cs) =
     (if isSep c then [] # splitSep cs
      else (case splitSep cs of [] \<Rightarrow> [[c]] | seg # segs \<Rightarrow> (c # seg) # segs))"

text \<open>\<^verbatim>\<open>xs.pop()\<close>, read for its value only: the last element, \<open>undefined\<close> on an
  empty array.\<close>

definition pop :: "'a list \<Rightarrow> 'a option" where
  "pop xs = (case rev xs of [] \<Rightarrow> None | x # _ \<Rightarrow> Some x)"

text \<open>\<^verbatim>\<open>xs.join(sep)\<close>\<close>

fun join :: "string list \<Rightarrow> string \<Rightarrow> string" where
  "join [] sep = []"
| "join [x] sep = x"
| "join (x # y # ys) sep = x @ sep @ join (y # ys) sep"


text \<open>\<^verbatim>\<open>xs.sort(cmp)\<close>: a stable sort by a comparator; \<open>x\<close> is placed before the
  first element it does not have to follow. The array is sorted in place, which the callers
  below make explicit.\<close>

fun insortBy :: "('a \<Rightarrow> 'a \<Rightarrow> int) \<Rightarrow> 'a \<Rightarrow> 'a list \<Rightarrow> 'a list" where
  "insortBy cmp x [] = [x]"
| "insortBy cmp x (y # ys) = (if cmp x y \<le> 0 then x # y # ys else y # insortBy cmp x ys)"

definition sortBy :: "('a \<Rightarrow> 'a \<Rightarrow> int) \<Rightarrow> 'a list \<Rightarrow> 'a list" where
  "sortBy cmp xs = foldr (insortBy cmp) xs []"

section \<open>Data model (types.ts)\<close>

text \<open>
  Modelled from the spec: the declaration of \<open>SymbolInfo\<close> lives in
  \<^verbatim>\<open>config/debugCommandGenerator\<close>, which is not part of the sources at hand. The fields
  are the ones the specification lists and the modules and tests use; \<open>kind\<close> is the
  numeric symbol category.
\<close>

record SymbolInfo =
  name :: string
  path :: "string list"
  kind :: nat
  language :: string
  filePath :: string
  workspaceRoot :: string

record LanguageTestConfig =
  framework :: string
  testCommand :: string
  args :: "string list"
  env :: "(string \<times> string) list option"
  cwd :: "string option"

datatype request = launch | attach

text \<open>
  \<open>LanguageDebugConfig\<close> has three required keys and an open set of further keys. The
  record lists every key one of the bundled generators writes; a key that is absent or
  \<open>undefined\<close> is \<open>None\<close>.
\<close>

record LanguageDebugConfig =
  type :: string
  name :: string
  request :: request
  mode :: "string option"
  program :: "string option"
  module :: "string option"
  args :: "string list option"
  cwd :: "string option"
  env :: "(string \<times> string) list option"
  console :: "string option"
  justMyCode :: "bool option"
  runtimeArgs :: "string list option"
  windows :: "(string \<times> string) list option"

text \<open>An object literal with the three required keys only; the generators add their
  keys by record update.\<close>

definition config :: "string \<Rightarrow> string \<Rightarrow> request \<Rightarrow> LanguageDebugConfig" where
  "config n t r =
     \<lparr> type = t, name = n, request = r, mode = None, program = None, module = None,
       args = None, cwd = None, env = None, console = None, justMyCode = None,
       runtimeArgs = None, windows = None \<rparr>"

text \<open>The descriptive keys \<open>setupInstructions\<close>, \<open>requirements\<close> and
  \<open>documentation\<close> of frameworks and modules are text for the user interface and are
  left out. A priority is a \<^verbatim>\<open>number\<close>; the bundled rules and the specification use
  integers.\<close>

record LanguageFramework =
  name :: string
  filePatterns :: "string list"
  priority :: int
  debugConfig :: "SymbolInfo \<Rightarrow> LanguageDebugConfig"
  testConfig :: "(SymbolInfo \<Rightarrow> LanguageTestConfig) option"

record LanguageModule =
  language :: string
  displayName :: string
  fileExtensions :: "string list"
  defaultDebugType :: string
  frameworks :: "LanguageFramework list"
  defaultConfig :: "string \<Rightarrow> string \<Rightarrow> LanguageDebugConfig"

section \<open>The Go module\<close>

definition isGoTestFunction :: "SymbolInfo \<Rightarrow> bool" where
  "isGoTestFunction symbol =
     (let isTestFile = endsWith (filePath symbol) ''_test.go'';
          isTestSymbol = (startsWith (SymbolInfo.name symbol) ''Test'' \<or>
                          startsWith (SymbolInfo.name symbol) ''Benchmark'' \<or>
                          startsWith (SymbolInfo.name symbol) ''Example'')
      in isTestFile \<and> isTestSymbol)"

definition isGoMainFunction :: "SymbolInfo \<Rightarrow> bool" where
  "isGoMainFunction symbol =
     (SymbolInfo.name symbol = ''main'' \<and> List.member (path symbol) ''main'')"

definition getFileDirectoryPath :: "string \<Rightarrow> string \<Rightarrow> string" where
  "getFileDirectoryPath fp root =
     (let dirPath = substring fp 0 (lastIndexOf fp CHR ''/'') in
      if dirPath = fp then ''${workspaceFolder}''
      else if root \<noteq> [] \<and> startsWith fp root then
        (let relativePath = stripLeadingSlash (substringFrom fp (int (length root)));
             relativeDirPath = substring relativePath 0 (lastIndexOf relativePath CHR ''/'')
         in if relativeDirPath \<noteq> [] then ''${workspaceFolder}/'' @ relativeDirPath
            else ''${workspaceFolder}'')
      else dirPath)"

definition goEnv :: "(string \<times> string) list" where
  "goEnv = [(''GOPATH'', ''${workspaceFolder}''), (''GO111MODULE'', ''on'')]"

definition generateGoDebugConfig :: "SymbolInfo \<Rightarrow> LanguageDebugConfig" where
  "generateGoDebugConfig symbol =
     (let fileDirPath = getFileDirectoryPath (filePath symbol) (workspaceRoot symbol) in
      if isGoTestFunction symbol then
        (config (''Go Test: '' @ SymbolInfo.name symbol) ''go'' launch)
          \<lparr> mode := Some ''test'',
            program := Some fileDirPath,
            LanguageDebugConfig.args :=
              Some [''-test.run'', ''^'' @ SymbolInfo.name symbol @ ''$'', ''-test.v''],
            LanguageDebugConfig.env := Some goEnv \<rparr>
      else if isGoMainFunction symbol then
        (config (''Go Debug: '' @ SymbolInfo.name symbol @ '' ('' @ fileDirPath @ '')'')
           ''go'' launch)
          \<lparr> mode := Some ''debug'',
            program := Some fileDirPath,
            LanguageDebugConfig.env := Some goEnv \<rparr>
      else
        (config (''Go Debug: '' @ SymbolInfo.name symbol @ '' ('' @ fileDirPath @ '')'')
           ''go'' launch)
          \<lparr> mode := Some ''auto'',
            program := Some fileDirPath,
            LanguageDebugConfig.env := Some goEnv \<rparr>)"

definition goTestTestConfig :: "SymbolInfo \<Rightarrow> LanguageTestConfig" where
  "goTestTestConfig symbol =
     (let fileDirPath = getFileDirectoryPath (filePath symbol) (workspaceRoot symbol) in
      \<lparr> framework = ''go-test'',
        testCommand = ''go test'',
        LanguageTestConfig.args =
          (if isGoTestFunction symbol
           then [''-run'', ''^'' @ SymbolInfo.name symbol @ ''$'', ''-v'', fileDirPath]
           else [''-v'', fileDirPath]),
        LanguageTestConfig.env = Some goEnv,
        LanguageTestConfig.cwd = Some fileDirPath \<rparr>)"

definition goTestFramework :: LanguageFramework where
  "goTestFramework =
     \<lparr> name = ''go-test'',
       filePatterns = [''**/*_test.go'', ''go.mod'', ''go.sum''],
       priority = 10,
       debugConfig = generateGoDebugConfig,
       testConfig = Some goTestTestConfig \<rparr>"

definition goMainFramework :: LanguageFramework where
  "goMainFramework =
     \<lparr> name = ''go-main'',
       filePatterns = [''**/main.go'', ''go.mod''],
       priority = 8,
       debugConfig = generateGoDebugConfig,
       testConfig = None \<rparr>"

text \<open>\<^verbatim>\<open>filePath.split(/[\/\\]/).pop() || ''\<close>\<close>

definition goFileName :: "string \<Rightarrow> string" where
  "goFileName fp = (case pop (splitSep fp) of None \<Rightarrow> [] | Some s \<Rightarrow> if s = [] then [] else s)"

definition golangDefaultConfig :: "string \<Rightarrow> string \<Rightarrow> LanguageDebugConfig" where
  "golangDefaultConfig fp root =
     (let fileName = goFileName fp;
          fileDirPath = getFileDirectoryPath fp root
      in if fileName = ''main.go'' then
           (config ''Launch file'' ''go'' launch)
             \<lparr> mode := Some ''debug'',
               program := Some ''${file}'',
               LanguageDebugConfig.env := Some goEnv \<rparr>
         else if endsWith fileName ''_test.go'' then
           (config ''Go: Launch Tests'' ''go'' launch)
             \<lparr> mode := Some ''test'',
               program := Some fileDirPath,
               LanguageDebugConfig.args := Some [''-test.v''],
               LanguageDebugConfig.env := Some goEnv \<rparr>
         else
           (config (''Go: Launch Package ('' @ fileDirPath @ '')'') ''go'' launch)
             \<lparr> mode := Some ''auto'',
               program := Some fileDirPath,
               LanguageDebugConfig.env := Some goEnv \<rparr>)"

definition golangModule :: LanguageModule where
  "golangModule =
     \<lparr> language = ''go'',
       displayName = ''Go'',
       fileExtensions = [''go''],
       defaultDebugType = ''go'',
       frameworks = [goTestFramework, goMainFramework],
       defaultConfig = golangDefaultConfig \<rparr>"

section \<open>The JavaScript/TypeScript module\<close>

definition tsEnv :: "(string \<times> string) list" where
  "tsEnv = [(''TS_NODE_PROJECT'', ''${workspaceFolder}/tsconfig.json'')]"

definition jestDebugConfig :: "SymbolInfo \<Rightarrow> LanguageDebugConfig" where
  "jestDebugConfig symbol =
     (let isTypeScript = (endsWith (filePath symbol) ''.ts'' \<or> endsWith (filePath symbol) ''.tsx'') in
      (config (''Jest: '' @ SymbolInfo.name symbol) ''node'' launch)
        \<lparr> program := Some ''${workspaceFolder}/node_modules/.bin/jest'',
          LanguageDebugConfig.args :=
            Some [''--runInBand'', ''--testNamePattern'', SymbolInfo.name symbol],
          LanguageDebugConfig.cwd := Some ''${workspaceFolder}'',
          console := Some ''integratedTerminal'',
          LanguageDebugConfig.env := (if isTypeScript then Some tsEnv else None),
          runtimeArgs := (if isTypeScript then Some [''-r'', ''ts-node/register''] else None),
          windows := Some [(''program'', ''${workspaceFolder}/node_modules/jest/bin/jest'')] \<rparr>)"

definition jestTestConfig :: "SymbolInfo \<Rightarrow> LanguageTestConfig" where
  "jestTestConfig symbol =
     \<lparr> framework = ''jest'',
       testCommand = ''jest'',
       LanguageTestConfig.args = [''--runInBand'', ''--testNamePattern'', SymbolInfo.name symbol],
       LanguageTestConfig.env = None,
       LanguageTestConfig.cwd = Some ''${workspaceFolder}'' \<rparr>"

definition jestFramework :: LanguageFramework where
  "jestFramework =
     \<lparr> name = ''jest'',
       filePatterns = [''**/*.test.js'', ''**/*.test.ts'', ''**/*.spec.js'', ''**/*.spec.ts'',
                       ''**/test/**'', ''**/tests/**'', ''jest.config.*'', ''package.json''],
       priority = 10,
       debugConfig = jestDebugConfig,
       testConfig = Some jestTestConfig \<rparr>"

definition mochaDebugConfig :: "SymbolInfo \<Rightarrow> LanguageDebugConfig" where
  "mochaDebugConfig symbol =
     (config (''Mocha: '' @ SymbolInfo.name symbol) ''node'' launch)
       \<lparr> program := Some ''${workspaceFolder}/node_modules/.bin/mocha'',
         LanguageDebugConfig.args := Some [''--grep'', SymbolInfo.name symbol],
         LanguageDebugConfig.cwd := Some ''${workspaceFolder}'',
         console := Some ''integratedTerminal'',
         runtimeArgs :=
           (if endsWith (filePath symbol) ''.ts'' then Some [''-r'', ''ts-node/register''] else None),
         LanguageDebugConfig.env :=
           (if endsWith (filePath symbol) ''.ts'' then Some tsEnv else None) \<rparr>"

definition mochaTestConfig :: "SymbolInfo \<Rightarrow> LanguageTestConfig" where
  "mochaTestConfig symbol =
     \<lparr> framework = ''mocha'',
       testCommand = ''mocha'',
       LanguageTestConfig.args = [''--grep'', SymbolInfo.name symbol],
       LanguageTestConfig.env = None,
       LanguageTestConfig.cwd = Some ''${workspaceFolder}'' \<rparr>"

definition mochaFramework :: LanguageFramework where
  "mochaFramework =
     \<lparr> name = ''mocha'',
       filePatterns = [''**/test/**'', ''**/tests/**'', ''*test.js'', ''*test.ts'', ''*spec.js'',
                       ''*spec.ts'', ''mocha.opts''],
       priority = 5,
       debugConfig = mochaDebugConfig,
       testConfig = Some mochaTestConfig \<rparr>"

definition javascriptDefaultConfig :: "string \<Rightarrow> string \<Rightarrow> LanguageDebugConfig" where
  "javascriptDefaultConfig fp root =
     (let relativePath = stripLeadingSep (removeFirst fp root);
          isTypeScript = (endsWith fp ''.ts'' \<or> endsWith fp ''.tsx'')
      in (config (if isTypeScript then ''Node.js: TypeScript File'' else ''Node.js: JavaScript File'')
            ''node'' launch)
           \<lparr> program := Some (''${workspaceFolder}/'' @ relativePath),
             LanguageDebugConfig.cwd := Some ''${workspaceFolder}'',
             console := Some ''integratedTerminal'',
             runtimeArgs := (if isTypeScript then Some [''-r'', ''ts-node/register''] else None),
             LanguageDebugConfig.env := (if isTypeScript then Some tsEnv else None) \<rparr>)"

definition javascriptModule :: LanguageModule where
  "javascriptModule =
     \<lparr> language = ''javascript'',
       displayName = ''JavaScript/TypeScript'',
       fileExtensions = [''js'', ''mjs'', ''cjs'', ''ts'', ''tsx'', ''jsx''],
       defaultDebugType = ''node'',
       frameworks = [jestFramework, mochaFramework],
       defaultConfig = javascriptDefaultConfig \<rparr>"

section \<open>The Python module\<close>

text \<open>
  The two Python frameworks call \<^verbatim>\<open>vscode.workspace.asRelativePath\<close>, a function of the
  editor and not of this repository; the module takes it as the parameter \<open>asRelativePath\<close>.
\<close>

definition pytestDebugConfig :: "(string \<Rightarrow> string) \<Rightarrow> SymbolInfo \<Rightarrow> LanguageDebugConfig" where
  "pytestDebugConfig asRelativePath symbol =
     (config (''pytest: '' @ SymbolInfo.name symbol) ''python'' launch)
       \<lparr> module := Some ''pytest'',
         LanguageDebugConfig.args :=
           Some [''-s'', ''-v'',
                 asRelativePath (filePath symbol) @ ''::'' @ join (path symbol) ''::''],
         LanguageDebugConfig.cwd := Some ''${workspaceFolder}'',
         LanguageDebugConfig.env := Some [(''PYTHONPATH'', ''${workspaceFolder}'')],
         console := Some ''integratedTerminal'',
         justMyCode := Some False \<rparr>"

definition pytestTestConfig :: "(string \<Rightarrow> string) \<Rightarrow> SymbolInfo \<Rightarrow> LanguageTestConfig" where
  "pytestTestConfig asRelativePath symbol =
     \<lparr> framework = ''pytest'',
       testCommand = ''pytest'',
       LanguageTestConfig.args =
         [''-s'', ''-v'', asRelativePath (filePath symbol) @ ''::'' @ join (path symbol) ''::''],
       LanguageTestConfig.env = Some [(''PYTHONPATH'', ''${workspaceFolder}'')],
       LanguageTestConfig.cwd = Some ''${workspaceFolder}'' \<rparr>"

definition pytestFramework :: "(string \<Rightarrow> string) \<Rightarrow> LanguageFramework" where
  "pytestFramework asRelativePath =
     \<lparr> name = ''pytest'',
       filePatterns = [''**/test_*.py'', ''**/*_test.py'', ''**/tests/**'', ''**/conftest.py'',
                       ''pytest.ini'', ''pyproject.toml'', ''setup.cfg''],
       priority = 10,
       debugConfig = pytestDebugConfig asRelativePath,
       testConfig = Some (pytestTestConfig asRelativePath) \<rparr>"

definition unittestDebugConfig :: "(string \<Rightarrow> string) \<Rightarrow> SymbolInfo \<Rightarrow> LanguageDebugConfig" where
  "unittestDebugConfig asRelativePath symbol =
     (config (''unittest: '' @ SymbolInfo.name symbol) ''python'' launch)
       \<lparr> module := Some ''unittest'',
         LanguageDebugConfig.args :=
           Some [removeFirst (asRelativePath (filePath symbol)) ''.py'' @ ''.'' @
                 join (drop 1 (path symbol)) ''.''],
         LanguageDebugConfig.cwd := Some ''${workspaceFolder}'',
         console := Some ''integratedTerminal'',
         justMyCode := Some True \<rparr>"

definition unittestFramework :: "(string \<Rightarrow> string) \<Rightarrow> LanguageFramework" where
  "unittestFramework asRelativePath =
     \<lparr> name = ''unittest'',
       filePatterns = [''**/test_*.py'', ''**/*_test.py'', ''**/tests/**''],
       priority = 5,
       debugConfig = unittestDebugConfig asRelativePath,
       testConfig = None \<rparr>"

definition pythonDefaultConfig :: "string \<Rightarrow> string \<Rightarrow> LanguageDebugConfig" where
  "pythonDefaultConfig fp root =
     (let relativePath = stripLeadingSep (removeFirst fp root) in
      (config ''Python: Current File'' ''python'' launch)
        \<lparr> program := Some (''${workspaceFolder}/'' @ relativePath),
          console := Some ''integratedTerminal'',
          justMyCode := Some True,
          LanguageDebugConfig.cwd := Some ''${workspaceFolder}'' \<rparr>)"

definition pythonModule :: "(string \<Rightarrow> string) \<Rightarrow> LanguageModule" where
  "pythonModule asRelativePath =
     \<lparr> language = ''python'',
       displayName = ''Python'',
       fileExtensions = [''py'', ''pyw'', ''py3''],
       defaultDebugType = ''python'',
       frameworks = [pytestFramework asRelativePath, unittestFramework asRelativePath],
       defaultConfig = pythonDefaultConfig \<rparr>"

section \<open>The module registry\<close>

text \<open>
  The registry is one object holding a \<^verbatim>\<open>Map\<close> from language key to module. A
  \<^verbatim>\<open>Map\<close> keeps insertion order, and \<^verbatim>\<open>set\<close> on a present key replaces the
  value where it stands: an association list with \<open>AList.update\<close>. Operations that change
  the registry or an object stored in it return the new registry.
\<close>

record LanguageModuleRegistry =
  modules :: "(string \<times> LanguageModule) list"

definition register :: "LanguageModuleRegistry \<Rightarrow> LanguageModule \<Rightarrow> LanguageModuleRegistry" where
  "register reg m = reg\<lparr>modules := AList.update (language m) m (modules reg)\<rparr>"

definition unregister :: "LanguageModuleRegistry \<Rightarrow> string \<Rightarrow> LanguageModuleRegistry" where
  "unregister reg lang = reg\<lparr>modules := AList.delete lang (modules reg)\<rparr>"

definition getModule :: "LanguageModuleRegistry \<Rightarrow> string \<Rightarrow> LanguageModule option" where
  "getModule reg lang = map_of (modules reg) lang"

definition getAllModules :: "LanguageModuleRegistry \<Rightarrow> LanguageModule list" where
  "getAllModules reg = map snd (modules reg)"

definition getSupportedLanguages :: "LanguageModuleRegistry \<Rightarrow> string list" where
  "getSupportedLanguages reg = map fst (modules reg)"

definition registerDefaultModules :: "(string \<Rightarrow> string) \<Rightarrow> LanguageModuleRegistry" where
  "registerDefaultModules asRelativePath =
     register (register (register \<lparr>modules = []\<rparr> (pythonModule asRelativePath)) golangModule)
       javascriptModule"

text \<open>
  The workspace file probe \<^verbatim>\<open>vscode.workspace.findFiles(pattern, null, 1)\<close> belongs to
  the editor: it is a parameter, a function from the glob pattern to the files found or to
  the error the probe throws.
\<close>

datatype error = UnregisteredLanguage string | ProbeFailure string

type_synonym workspace = "string \<Rightarrow> error + string list"

text \<open>The loop of \<open>matchesFramework\<close> over \<open>framework.filePatterns\<close>: the
  \<^verbatim>\<open>catch\<close> block is empty, so after an error the loop goes on with the next pattern.\<close>

fun matchesPatterns :: "workspace \<Rightarrow> SymbolInfo \<Rightarrow> string list \<Rightarrow> error + bool" where
  "matchesPatterns findFiles symbol [] = Inr False"
| "matchesPatterns findFiles symbol (pattern # patterns) =
     (case findFiles pattern of
        Inr files \<Rightarrow>
          if length files > 0 then Inr True else matchesPatterns findFiles symbol patterns
      | Inl err \<Rightarrow> matchesPatterns findFiles symbol patterns)"

definition matchesFramework :: "workspace \<Rightarrow> SymbolInfo \<Rightarrow> LanguageFramework \<Rightarrow> error + bool" where
  "matchesFramework findFiles symbol fw = matchesPatterns findFiles symbol (filePatterns fw)"

text \<open>The loop of \<open>detectFramework\<close> over the sorted frameworks; an error of the awaited
  \<open>matchesFramework\<close> would leave the loop and the function.\<close>

fun detectLoop :: "workspace \<Rightarrow> SymbolInfo \<Rightarrow> LanguageFramework list \<Rightarrow>
    error + LanguageFramework option" where
  "detectLoop findFiles symbol [] = Inr None"
| "detectLoop findFiles symbol (fw # fws) =
     (case matchesFramework findFiles symbol fw of
        Inl err \<Rightarrow> Inl err
      | Inr matched \<Rightarrow> if matched then Inr (Some fw) else detectLoop findFiles symbol fws)"

text \<open>\<^verbatim>\<open>(a, b) => b.priority - a.priority\<close>\<close>

definition byPriorityDesc :: "LanguageFramework \<Rightarrow> LanguageFramework \<Rightarrow> int" where
  "byPriorityDesc a b = priority b - priority a"

text \<open>\<^verbatim>\<open>module.frameworks.sort(...)\<close> sorts the array of the registered module object
  itself: the registry reached afterwards through the same key holds the sorted array.\<close>

definition sortFrameworksInPlace ::
    "LanguageModuleRegistry \<Rightarrow> string \<Rightarrow> LanguageModule \<Rightarrow> LanguageFramework list \<times> LanguageModuleRegistry" where
  "sortFrameworksInPlace reg key m =
     (let sortedFrameworks = sortBy byPriorityDesc (frameworks m)
      in (sortedFrameworks,
          reg\<lparr>modules := AList.update key (m\<lparr>frameworks := sortedFrameworks\<rparr>) (modules reg)\<rparr>))"

definition detectFramework :: "LanguageModuleRegistry \<Rightarrow> workspace \<Rightarrow> SymbolInfo \<Rightarrow>
    (error + LanguageFramework option) \<times> LanguageModuleRegistry" where
  "detectFramework reg findFiles symbol =
     (case getModule reg (SymbolInfo.language symbol) of
        None \<Rightarrow> (Inr None, reg)
      | Some m \<Rightarrow>
          (case sortFrameworksInPlace reg (SymbolInfo.language symbol) m of
             (sortedFrameworks, reg') \<Rightarrow> (detectLoop findFiles symbol sortedFrameworks, reg')))"

definition generateDebugConfig :: "LanguageModuleRegistry \<Rightarrow> workspace \<Rightarrow> SymbolInfo \<Rightarrow>
    (error + LanguageDebugConfig) \<times> LanguageModuleRegistry" where
  "generateDebugConfig reg findFiles symbol =
     (case getModule reg (SymbolInfo.language symbol) of
        None \<Rightarrow> (Inl (UnregisteredLanguage (SymbolInfo.language symbol)), reg)
      | Some m \<Rightarrow>
          (case detectFramework reg findFiles symbol of
             (Inl err, reg') \<Rightarrow> (Inl err, reg')
           | (Inr (Some fw), reg') \<Rightarrow> (Inr (debugConfig fw symbol), reg')
           | (Inr None, reg') \<Rightarrow>
               (Inr (defaultConfig m (filePath symbol) (workspaceRoot symbol)), reg')))"

definition generateTestConfig :: "LanguageModuleRegistry \<Rightarrow> workspace \<Rightarrow> SymbolInfo \<Rightarrow>
    (error + LanguageTestConfig option) \<times> LanguageModuleRegistry" where
  "generateTestConfig reg findFiles symbol =
     (case detectFramework reg findFiles symbol of
        (Inl err, reg') \<Rightarrow> (Inl err, reg')
      | (Inr (Some fw), reg') \<Rightarrow>
          (case testConfig fw of
             Some factory \<Rightarrow> (Inr (Some (factory symbol)), reg')
           | None \<Rightarrow> (Inr None, reg'))
      | (Inr None, reg') \<Rightarrow> (Inr None, reg'))"

definition getFrameworkInfo :: "LanguageModuleRegistry \<Rightarrow> string \<Rightarrow>
    (string \<times> int) list \<times> LanguageModuleRegistry" where
  "getFrameworkInfo reg lang =
     (case getModule reg lang of
        None \<Rightarrow> ([], reg)
      | Some m \<Rightarrow>
          (case sortFrameworksInPlace reg lang m of
             (sortedFrameworks, reg') \<Rightarrow>
               (map (\<lambda>fw. (name fw, priority fw)) sortedFrameworks, reg')))"

section \<open>Notions the properties are stated with\<close>

text \<open>A glob pattern matches the workspace when its probe returns at least one file; a
  probe that throws counts as no match. A framework rule matches when one of its patterns
  does.\<close>

definition patternMatches :: "workspace \<Rightarrow> string \<Rightarrow> bool" where
  "patternMatches findFiles pattern =
     (case findFiles pattern of Inl err \<Rightarrow> False | Inr files \<Rightarrow> files \<noteq> [])"

definition frameworkMatches :: "workspace \<Rightarrow> LanguageFramework \<Rightarrow> bool" where
  "frameworkMatches findFiles fw = list_ex (patternMatches findFiles) (filePatterns fw)"

text \<open>The workspace in which every failing probe finds no file instead.\<close>

definition ignoringErrors :: "workspace \<Rightarrow> workspace" where
  "ignoringErrors findFiles pattern =
     (case findFiles pattern of Inl err \<Rightarrow> Inr [] | Inr files \<Rightarrow> Inr files)"

section \<open>Example inputs\<close>

text \<open>Workspaces: one in which no pattern finds a file, one holding only a
  \<^verbatim>\<open>main.go\<close>, and one in which every pattern finds a file.\<close>

definition emptyWorkspace :: workspace where
  "emptyWorkspace pattern = Inr []"

definition mainOnlyWorkspace :: workspace where
  "mainOnlyWorkspace pattern =
     (if pattern = ''**/main.go'' then Inr [''/workspace/main.go''] else Inr [])"

definition allWorkspace :: workspace where
  "allWorkspace pattern = Inr [''/workspace/'' @ pattern]"

text \<open>The symbols of the repository's own test scripts.\<close>

definition testAdditionSymbol :: SymbolInfo where
  "testAdditionSymbol =
     \<lparr> SymbolInfo.name = ''TestAddition'', path = [''TestAddition''], kind = 12,
       SymbolInfo.language = ''go'', filePath = ''/workspace/math_test.go'',
       workspaceRoot = ''/workspace'' \<rparr>"

definition mainSymbol :: SymbolInfo where
  "mainSymbol =
     \<lparr> SymbolInfo.name = ''main'', path = [''main''], kind = 12,
       SymbolInfo.language = ''go'', filePath = ''/workspace/main.go'',
       workspaceRoot = ''/workspace'' \<rparr>"


definition rustSymbol :: SymbolInfo where
  "rustSymbol =
     \<lparr> SymbolInfo.name = ''main'', path = [''main''], kind = 12,
       SymbolInfo.language = ''rust'', filePath = ''/workspace/main.rs'',
       workspaceRoot = ''/workspace'' \<rparr>"

definition goRegistry :: LanguageModuleRegistry where
  "goRegistry = register \<lparr>modules = []\<rparr> golangModule"

definition reversedGoModule :: LanguageModule where
  "reversedGoModule = golangModule\<lparr>frameworks := [goMainFramework, goTestFramework]\<rparr>"

definition reversedGoRegistry :: LanguageModuleRegistry where
  "reversedGoRegistry = register \<lparr>modules = []\<rparr> reversedGoModule"

text \<open>A workspace holding only a \<^verbatim>\<open>main.go\<close> whose probe for test files throws.\<close>

definition flakyWorkspace :: workspace where
  "flakyWorkspace pattern =
     (if pattern = ''**/*_test.go'' then Inl (ProbeFailure pattern)
      else if pattern = ''**/main.go'' then Inr [''/workspace/main.go'']
      else Inr [])"

text \<open>The names of the frameworks of the module registered under a key, in the order of
  its array.\<close>

definition frameworkNames :: "LanguageModuleRegistry \<Rightarrow> string \<Rightarrow> string list option" where
  "frameworkNames reg lang = map_option (map name \<circ> frameworks) (getModule reg lang)"

section \<open>Framework detection\<close>

lemma matchesPatterns_eq:
  "matchesPatterns findFiles symbol ps = Inr (list_ex (patternMatches findFiles) ps)"
  by (induction ps) (auto simp: patternMatches_def split: sum.splits)

lemma matchesFramework_eq:
  "matchesFramework findFiles symbol fw = Inr (frameworkMatches findFiles fw)"
  by (simp add: matchesFramework_def frameworkMatches_def matchesPatterns_eq)

lemma detectLoop_eq:
  "detectLoop findFiles symbol fws = Inr (find (frameworkMatches findFiles) fws)"
  by (induction fws) (simp_all add: matchesFramework_eq)

lemma set_insortBy: "set (insortBy cmp x ys) = insert x (set ys)"
  by (induction ys) auto

lemma set_sortBy: "set (sortBy cmp xs) = set xs"
  by (induction xs) (simp_all add: sortBy_def set_insortBy)

lemma sorted_insortBy_priority:
  "sorted_wrt (\<lambda>a b. priority b \<le> priority a) ys \<Longrightarrow>
   sorted_wrt (\<lambda>a b. priority b \<le> priority a) (insortBy byPriorityDesc x ys)"
  by (induction ys) (auto simp: set_insortBy byPriorityDesc_def)

lemma sorted_sortBy_priority:
  "sorted_wrt (\<lambda>a b. priority b \<le> priority a) (sortBy byPriorityDesc xs)"
proof (induction xs)
  case Nil
  show ?case by (simp add: sortBy_def)
next
  case (Cons x xs)
  have "sortBy byPriorityDesc (x # xs) = insortBy byPriorityDesc x (sortBy byPriorityDesc xs)"
    by (simp add: sortBy_def)
  with Cons show ?case by (simp add: sorted_insortBy_priority)
qed

text \<open>In a list sorted by descending priority, the first element with a property has a
  priority at least that of every element with the property.\<close>

lemma find_sorted_priority:
  assumes "sorted_wrt (\<lambda>a b. priority b \<le> priority a) xs"
    and "f \<in> set xs" and "Q f"
  shows "\<exists>g. find Q xs = Some g \<and> g \<in> set xs \<and> Q g \<and> priority f \<le> priority g"
  using assms
proof (induction xs)
  case Nil
  then show ?case by simp
next
  case (Cons x xs)
  show ?case
  proof (cases "Q x")
    case True
    with Cons.prems show ?thesis by auto
  next
    case False
    with Cons.prems have "f \<in> set xs" by auto
    with Cons False show ?thesis by auto
  qed
qed

lemma detectFramework_registered:
  "getModule reg (SymbolInfo.language symbol) = Some m \<Longrightarrow>
   fst (detectFramework reg findFiles symbol) =
     Inr (find (frameworkMatches findFiles) (sortBy byPriorityDesc (frameworks m)))"
  by (simp add: detectFramework_def sortFrameworksInPlace_def detectLoop_eq Let_def)

lemma detectFramework_unregistered:
  "getModule reg (SymbolInfo.language symbol) = None \<Longrightarrow>
   detectFramework reg findFiles symbol = (Inr None, reg)"
  by (simp add: detectFramework_def)

lemma generateDebugConfig_registered:
  "getModule reg (SymbolInfo.language symbol) = Some m \<Longrightarrow>
   fst (generateDebugConfig reg findFiles symbol) =
     (case find (frameworkMatches findFiles) (sortBy byPriorityDesc (frameworks m)) of
        Some fw \<Rightarrow> Inr (debugConfig fw symbol)
      | None \<Rightarrow> Inr (defaultConfig m (filePath symbol) (workspaceRoot symbol)))"
  using detectFramework_registered [of reg symbol m findFiles]
  by (cases "detectFramework reg findFiles symbol")
     (auto simp: generateDebugConfig_def split: option.splits sum.splits)

lemma generateTestConfig_eq:
  "fst (generateTestConfig reg findFiles symbol) =
     (case fst (detectFramework reg findFiles symbol) of
        Inl err \<Rightarrow> Inl err
      | Inr None \<Rightarrow> Inr None
      | Inr (Some fw) \<Rightarrow>
          (case testConfig fw of
             None \<Rightarrow> Inr None
           | Some factory \<Rightarrow> Inr (Some (factory symbol))))"
  by (cases "detectFramework reg findFiles symbol")
     (auto simp: generateTestConfig_def split: option.splits sum.splits)

lemma getModule_goRegistry: "getModule goRegistry ''go'' = Some golangModule"
  by (simp add: getModule_def goRegistry_def register_def golangModule_def)

lemma getModule_reversedGoRegistry:
  "getModule reversedGoRegistry ''go'' = Some reversedGoModule"
  by (simp add: getModule_def reversedGoRegistry_def register_def reversedGoModule_def
      golangModule_def)

lemma goRegistry_rust: "getModule goRegistry (SymbolInfo.language rustSymbol) = None"
  by (simp add: getModule_def goRegistry_def register_def rustSymbol_def golangModule_def)

section \<open>Unregistered languages\<close>

text \<open>
  Claim C1, as the code has it. For a symbol whose language key has no registered module,
  \<open>generateDebugConfig\<close> fails with \<open>UnregisteredLanguage\<close>. \<open>generateTestConfig\<close>
  does not fail for such a symbol: it goes through \<open>detectFramework\<close>, whose guard returns
  the absent value when there is no module, and so it returns the absent value itself.
\<close>

theorem unregistered_language:
  assumes "getModule reg (SymbolInfo.language symbol) = None"
  shows "fst (generateDebugConfig reg findFiles symbol) =
           Inl (UnregisteredLanguage (SymbolInfo.language symbol)) \<and>
         fst (generateTestConfig reg findFiles symbol) = Inr None"
  using assms
  by (simp add: generateDebugConfig_def generateTestConfig_def detectFramework_unregistered)

theorem unregistered_language_witness:
  "getModule goRegistry (SymbolInfo.language rustSymbol) = None \<and>
   fst (generateDebugConfig goRegistry emptyWorkspace rustSymbol) =
     Inl (UnregisteredLanguage ''rust'') \<and>
   fst (generateTestConfig goRegistry emptyWorkspace rustSymbol) = Inr None"
  using unregistered_language [OF goRegistry_rust, of emptyWorkspace] goRegistry_rust
  by (simp add: rustSymbol_def)

text \<open>The claim as it was stated expects \<open>UnregisteredLanguage\<close> from
  \<open>generateTestConfig\<close> too; with only the Go module registered, a Rust symbol gets the
  absent value.\<close>

theorem generateTestConfig_unregistered_counterexample:
  "getModule goRegistry (SymbolInfo.language rustSymbol) = None \<and>
   fst (generateTestConfig goRegistry emptyWorkspace rustSymbol) = Inr None \<and>
   fst (generateTestConfig goRegistry emptyWorkspace rustSymbol) \<noteq>
     Inl (UnregisteredLanguage (SymbolInfo.language rustSymbol))"
  by (simp add: generateTestConfig_def detectFramework_def getModule_def goRegistry_def
      register_def rustSymbol_def golangModule_def)

section \<open>Priority resolution\<close>

lemma goTest_matches_all: "frameworkMatches allWorkspace goTestFramework"
  by (simp add: frameworkMatches_def patternMatches_def allWorkspace_def goTestFramework_def)

lemma goMain_matches_all: "frameworkMatches allWorkspace goMainFramework"
  by (simp add: frameworkMatches_def patternMatches_def allWorkspace_def goMainFramework_def)

lemma goPriorities: "priority goMainFramework < priority goTestFramework"
  by (simp add: goMainFramework_def goTestFramework_def)

text \<open>
  Claim C2. Let a registered module hold two framework rules \<open>f1\<close> and \<open>f2\<close> whose
  patterns both match the workspace, \<open>f1\<close> with the strictly higher priority. Then
  \<open>detectFramework\<close> returns a matching rule whose priority is at least that of
  \<open>f1\<close>, hence never \<open>f2\<close>; it returns \<open>f1\<close> itself when no other matching rule
  of the module reaches the priority of \<open>f1\<close>, in particular when the module holds just
  these two rules. The hypotheses speak of the rules as a set only, so the order of the
  module's list plays no role.
\<close>

theorem detectFramework_highest_priority:
  assumes "getModule reg (SymbolInfo.language symbol) = Some m"
    and "f1 \<in> set (frameworks m)" and "f2 \<in> set (frameworks m)"
    and "frameworkMatches findFiles f1" and "frameworkMatches findFiles f2"
    and "priority f2 < priority f1"
  shows "(\<exists>g. fst (detectFramework reg findFiles symbol) = Inr (Some g) \<and>
              frameworkMatches findFiles g \<and> priority f1 \<le> priority g \<and> g \<noteq> f2) \<and>
         ((\<forall>g \<in> set (frameworks m).
              frameworkMatches findFiles g \<longrightarrow> g = f1 \<or> priority g < priority f1) \<longrightarrow>
            fst (detectFramework reg findFiles symbol) = Inr (Some f1)) \<and>
         (set (frameworks m) = {f1, f2} \<longrightarrow>
            fst (detectFramework reg findFiles symbol) = Inr (Some f1))"
proof -
  let ?xs = "sortBy byPriorityDesc (frameworks m)"
  have "f1 \<in> set ?xs" using assms(2) by (simp add: set_sortBy)
  from find_sorted_priority [of ?xs f1 "frameworkMatches findFiles",
      OF sorted_sortBy_priority this assms(4)]
  obtain g where g: "find (frameworkMatches findFiles) ?xs = Some g" "g \<in> set ?xs"
    "frameworkMatches findFiles g" "priority f1 \<le> priority g" by blast
  have res: "fst (detectFramework reg findFiles symbol) = Inr (Some g)"
    using g(1) by (simp add: detectFramework_registered [OF assms(1)])
  have mem: "g \<in> set (frameworks m)" using g(2) by (simp add: set_sortBy)
  have "g \<noteq> f2" using g(4) assms(6) by auto
  with res g(3) g(4) have 1: "\<exists>g. fst (detectFramework reg findFiles symbol) = Inr (Some g) \<and>
      frameworkMatches findFiles g \<and> priority f1 \<le> priority g \<and> g \<noteq> f2"
    by blast
  have 2: "fst (detectFramework reg findFiles symbol) = Inr (Some f1)"
    if "\<forall>g \<in> set (frameworks m).
          frameworkMatches findFiles g \<longrightarrow> g = f1 \<or> priority g < priority f1"
  proof -
    from that mem g(3) g(4) have "g = f1" by auto
    with res show ?thesis by simp
  qed
  have 3: "fst (detectFramework reg findFiles symbol) = Inr (Some f1)"
    if "set (frameworks m) = {f1, f2}"
  proof -
    from that mem \<open>g \<noteq> f2\<close> have "g = f1" by auto
    with res show ?thesis by simp
  qed
  from 1 2 3 show ?thesis by blast
qed

text \<open>The two Go rules in a workspace where both match, in the order of the bundled
  module and in the reverse order.\<close>

theorem detectFramework_highest_priority_witness:
  "frameworks golangModule = [goTestFramework, goMainFramework] \<and>
   frameworks reversedGoModule = [goMainFramework, goTestFramework] \<and>
   frameworkMatches allWorkspace goTestFramework \<and>
   frameworkMatches allWorkspace goMainFramework \<and>
   priority goMainFramework < priority goTestFramework \<and>
   fst (detectFramework goRegistry allWorkspace testAdditionSymbol) =
     Inr (Some goTestFramework) \<and>
   fst (detectFramework reversedGoRegistry allWorkspace testAdditionSymbol) =
     Inr (Some goTestFramework)"
proof -
  have l: "SymbolInfo.language testAdditionSymbol = ''go''"
    by (simp add: testAdditionSymbol_def)
  have a: "frameworks golangModule = [goTestFramework, goMainFramework]"
    by (simp add: golangModule_def)
  have b: "frameworks reversedGoModule = [goMainFramework, goTestFramework]"
    by (simp add: reversedGoModule_def)
  have 1: "fst (detectFramework goRegistry allWorkspace testAdditionSymbol) =
      Inr (Some goTestFramework)"
    using detectFramework_highest_priority [of goRegistry testAdditionSymbol golangModule
        goTestFramework goMainFramework allWorkspace]
      goPriorities goTest_matches_all goMain_matches_all
    by (simp add: l a getModule_goRegistry)
  have 2: "fst (detectFramework reversedGoRegistry allWorkspace testAdditionSymbol) =
      Inr (Some goTestFramework)"
    using detectFramework_highest_priority [of reversedGoRegistry testAdditionSymbol
        reversedGoModule goTestFramework goMainFramework allWorkspace]
      goPriorities goTest_matches_all goMain_matches_all
    by (simp add: l b getModule_reversedGoRegistry insert_commute)
  from a b 1 2 goTest_matches_all goMain_matches_all goPriorities show ?thesis by simp
qed

section \<open>The default configuration\<close>

lemma go_nothing_matches_empty:
  "\<forall>fw \<in> set (frameworks golangModule). \<not> frameworkMatches emptyWorkspace fw"
  by (simp add: golangModule_def frameworkMatches_def patternMatches_def emptyWorkspace_def
      goTestFramework_def goMainFramework_def)

text \<open>
  Claim C3. For a symbol whose language has a registered module, when none of the module's
  framework rules matches the workspace, \<open>generateDebugConfig\<close> returns exactly
  \<open>defaultConfig (filePath, workspaceRoot)\<close> of that module, as a value and not as an
  error.
\<close>

theorem generateDebugConfig_default:
  assumes "getModule reg (SymbolInfo.language symbol) = Some m"
    and "\<forall>fw \<in> set (frameworks m). \<not> frameworkMatches findFiles fw"
  shows "fst (generateDebugConfig reg findFiles symbol) =
           Inr (defaultConfig m (filePath symbol) (workspaceRoot symbol))"
proof -
  have "find (frameworkMatches findFiles) (sortBy byPriorityDesc (frameworks m)) = None"
    using assms(2) by (simp add: find_None_iff set_sortBy)
  then show ?thesis by (simp add: generateDebugConfig_registered [OF assms(1)])
qed

theorem generateDebugConfig_default_witness:
  "getModule goRegistry (SymbolInfo.language mainSymbol) = Some golangModule \<and>
   frameworks golangModule = [goTestFramework, goMainFramework] \<and>
   \<not> frameworkMatches emptyWorkspace goTestFramework \<and>
   \<not> frameworkMatches emptyWorkspace goMainFramework \<and>
   fst (generateDebugConfig goRegistry emptyWorkspace mainSymbol) =
     Inr (golangDefaultConfig ''/workspace/main.go'' ''/workspace'')"
proof -
  have g: "getModule goRegistry (SymbolInfo.language mainSymbol) = Some golangModule"
    by (simp add: getModule_goRegistry mainSymbol_def)
  have fs: "frameworks golangModule = [goTestFramework, goMainFramework]"
    by (simp add: golangModule_def)
  from generateDebugConfig_default [OF g go_nothing_matches_empty] g go_nothing_matches_empty
  show ?thesis by (simp add: fs) (simp add: mainSymbol_def golangModule_def)
qed

section \<open>Probe failures\<close>

lemma patternMatches_ignoringErrors:
  "patternMatches (ignoringErrors findFiles) = patternMatches findFiles"
  by (rule ext) (simp add: patternMatches_def ignoringErrors_def split: sum.splits)

lemma frameworkMatches_ignoringErrors:
  "frameworkMatches (ignoringErrors findFiles) = frameworkMatches findFiles"
  by (rule ext) (simp add: frameworkMatches_def patternMatches_ignoringErrors)

lemma detectFramework_fst_eq:
  "fst (detectFramework reg findFiles symbol) =
     (case getModule reg (SymbolInfo.language symbol) of
        None \<Rightarrow> Inr None
      | Some m \<Rightarrow>
          Inr (find (frameworkMatches findFiles) (sortBy byPriorityDesc (frameworks m))))"
  by (simp add: detectFramework_registered detectFramework_unregistered split: option.splits)

text \<open>
  Claim C7. A probe that throws is treated exactly as a pattern that did not match:
  \<open>matchesFramework\<close> goes on with the remaining patterns and answers whether one of
  them finds a file, \<open>detectFramework\<close> returns what it returns in the workspace where
  the failing probes find nothing (so it goes on with the remaining frameworks), and the
  error never leaves \<open>detectFramework\<close>.
\<close>

theorem probe_failure_recovered:
  "(\<forall>pattern patterns err. findFiles pattern = Inl err \<longrightarrow>
      matchesPatterns findFiles symbol (pattern # patterns) =
        matchesPatterns findFiles symbol patterns) \<and>
   matchesFramework findFiles symbol fw = Inr (frameworkMatches findFiles fw) \<and>
   matchesFramework findFiles symbol fw = matchesFramework (ignoringErrors findFiles) symbol fw \<and>
   fst (detectFramework reg findFiles symbol) =
     fst (detectFramework reg (ignoringErrors findFiles) symbol) \<and>
   (\<forall>err. fst (detectFramework reg findFiles symbol) \<noteq> Inl err)"
  by (simp add: matchesFramework_eq detectFramework_fst_eq frameworkMatches_ignoringErrors
      split: option.splits)

text \<open>The Go module in a workspace whose probe for test files throws: detection goes
  on to \<^verbatim>\<open>go.mod\<close> and \<^verbatim>\<open>go.sum\<close> and then to the rule \<^verbatim>\<open>go-main\<close>.\<close>

lemma ignoringErrors_flaky: "ignoringErrors flakyWorkspace = mainOnlyWorkspace"
  by (rule ext) (simp add: ignoringErrors_def flakyWorkspace_def mainOnlyWorkspace_def)

lemma sortBy_go:
  "sortBy byPriorityDesc [goTestFramework, goMainFramework] = [goTestFramework, goMainFramework]"
  "sortBy byPriorityDesc [goMainFramework, goTestFramework] = [goTestFramework, goMainFramework]"
  by (simp_all add: sortBy_def byPriorityDesc_def goTestFramework_def goMainFramework_def)

lemma mainOnly_matches:
  "\<not> frameworkMatches mainOnlyWorkspace goTestFramework"
  "frameworkMatches mainOnlyWorkspace goMainFramework"
  by (simp_all add: frameworkMatches_def patternMatches_def mainOnlyWorkspace_def
      goTestFramework_def goMainFramework_def)

lemma empty_matches:
  "\<not> frameworkMatches emptyWorkspace goTestFramework"
  "\<not> frameworkMatches emptyWorkspace goMainFramework"
  by (simp_all add: frameworkMatches_def patternMatches_def emptyWorkspace_def
      goTestFramework_def goMainFramework_def)

lemma detect_go_mainOnly:
  "fst (detectFramework goRegistry mainOnlyWorkspace mainSymbol) = Inr (Some goMainFramework)"
  by (simp add: detectFramework_fst_eq mainSymbol_def getModule_goRegistry golangModule_def
      sortBy_go mainOnly_matches)

lemma detect_go_empty:
  "fst (detectFramework goRegistry emptyWorkspace mainSymbol) = Inr None"
  by (simp add: detectFramework_fst_eq mainSymbol_def getModule_goRegistry golangModule_def
      sortBy_go empty_matches)

theorem probe_failure_recovered_witness:
  "flakyWorkspace ''**/*_test.go'' = Inl (ProbeFailure ''**/*_test.go'') \<and>
   matchesPatterns flakyWorkspace mainSymbol [''**/*_test.go'', ''go.mod'', ''go.sum''] =
     matchesPatterns flakyWorkspace mainSymbol [''go.mod'', ''go.sum''] \<and>
   matchesFramework flakyWorkspace mainSymbol goTestFramework = Inr False \<and>
   fst (detectFramework goRegistry flakyWorkspace mainSymbol) = Inr (Some goMainFramework)"
proof -
  have f: "flakyWorkspace ''**/*_test.go'' = Inl (ProbeFailure ''**/*_test.go'')"
    by (simp add: flakyWorkspace_def)
  note t = probe_failure_recovered [of flakyWorkspace mainSymbol goTestFramework goRegistry]
  from t f have 1: "matchesPatterns flakyWorkspace mainSymbol [''**/*_test.go'', ''go.mod'', ''go.sum''] =
     matchesPatterns flakyWorkspace mainSymbol [''go.mod'', ''go.sum'']"
    by blast
  from t have 2: "matchesFramework flakyWorkspace mainSymbol goTestFramework = Inr False"
    using mainOnly_matches(1)
    by (simp add: frameworkMatches_ignoringErrors [of flakyWorkspace, symmetric] ignoringErrors_flaky)
  from t have 3: "fst (detectFramework goRegistry flakyWorkspace mainSymbol) = Inr (Some goMainFramework)"
    by (simp add: ignoringErrors_flaky detect_go_mainOnly)
  from f 1 2 3 show ?thesis by simp
qed

section \<open>Absent test configurations\<close>

text \<open>
  Claim C8. \<open>generateTestConfig\<close> returns the absent value, not an error, when no
  framework is detected and when the detected framework has no \<open>testConfig\<close> factory;
  the rule \<^verbatim>\<open>go-main\<close> of the Go module is such a framework.
\<close>

theorem generateTestConfig_absent:
  "(fst (detectFramework reg findFiles symbol) = Inr None \<longrightarrow>
      fst (generateTestConfig reg findFiles symbol) = Inr None) \<and>
   (fst (detectFramework reg findFiles symbol) = Inr (Some fw) \<and> testConfig fw = None \<longrightarrow>
      fst (generateTestConfig reg findFiles symbol) = Inr None) \<and>
   testConfig goMainFramework = None"
  by (simp add: generateTestConfig_eq goMainFramework_def)

theorem generateTestConfig_absent_witness:
  "fst (detectFramework goRegistry emptyWorkspace mainSymbol) = Inr None \<and>
   fst (generateTestConfig goRegistry emptyWorkspace mainSymbol) = Inr None \<and>
   fst (detectFramework goRegistry mainOnlyWorkspace mainSymbol) = Inr (Some goMainFramework) \<and>
   testConfig goMainFramework = None \<and>
   fst (generateTestConfig goRegistry mainOnlyWorkspace mainSymbol) = Inr None"
  using generateTestConfig_absent [of goRegistry emptyWorkspace mainSymbol goMainFramework]
    generateTestConfig_absent [of goRegistry mainOnlyWorkspace mainSymbol goMainFramework]
    detect_go_empty detect_go_mainOnly
  by simp

section \<open>The registered module's framework array\<close>

text \<open>
  Claim C9 says that \<open>detectFramework\<close> and \<open>getFrameworkInfo\<close> leave the registered
  module's framework array and the order of its elements unchanged. Both sort that very
  array: a module registered with the rules in the order \<^verbatim>\<open>go-main\<close>,
  \<^verbatim>\<open>go-test\<close> holds them in the order \<^verbatim>\<open>go-test\<close>, \<^verbatim>\<open>go-main\<close> after either call.
\<close>

theorem detectFramework_reorders_frameworks:
  "frameworkNames reversedGoRegistry ''go'' = Some [''go-main'', ''go-test''] \<and>
   frameworkNames (snd (detectFramework reversedGoRegistry emptyWorkspace mainSymbol)) ''go'' =
     Some [''go-test'', ''go-main''] \<and>
   frameworkNames (snd (getFrameworkInfo reversedGoRegistry ''go'')) ''go'' =
     Some [''go-test'', ''go-main'']"
  by code_simp

section \<open>Facts about the string primitives\<close>

lemma endsWith_iff: "endsWith s p \<longleftrightarrow> (\<exists>pre. s = pre @ p)"
proof
  assume "endsWith s p"
  then have "s = take (length s - length p) s @ p"
    by (metis append_take_drop_id endsWith_def)
  then show "\<exists>pre. s = pre @ p" ..
next
  assume "\<exists>pre. s = pre @ p"
  then show "endsWith s p" by (auto simp: endsWith_def)
qed

lemma startsWith_append [simp]: "startsWith (p @ r) p"
  by (simp add: startsWith_def)

lemma lastIndexOf_less: "lastIndexOf s c < int (length s)"
proof (cases "c \<in> set s")
  case True
  have "length (dropWhile (\<lambda>x. x \<noteq> c) (rev s)) \<le> length (rev s)"
    by (rule length_dropWhile_le)
  moreover from True have "s \<noteq> []" by auto
  ultimately show ?thesis using True by (simp add: lastIndexOf_def)
next
  case False
  then show ?thesis by (simp add: lastIndexOf_def)
qed

lemma lastIndexOf_absent: "c \<notin> set s \<Longrightarrow> lastIndexOf s c = - 1"
  by (simp add: lastIndexOf_def)

lemma substring_from_zero: "substring s 0 n = take (nat n) s"
  by (auto simp: substring_def Let_def min_def max_def)


lemma dirPath_eq_iff: "substring fp 0 (lastIndexOf fp c) = fp \<longleftrightarrow> fp = []"
proof
  assume a: "substring fp 0 (lastIndexOf fp c) = fp"
  show "fp = []"
  proof (rule ccontr)
    assume "fp \<noteq> []"
    have "nat (lastIndexOf fp c) < length fp"
      using lastIndexOf_less [of fp c] \<open>fp \<noteq> []\<close> by (cases fp) auto
    then have "length (take (nat (lastIndexOf fp c)) fp) < length fp"
      by simp
    with a show False by (simp add: substring_from_zero)
  qed
next
  assume "fp = []"
  then show "substring fp 0 (lastIndexOf fp c) = fp" by (simp add: substring_from_zero)
qed


lemma getFileDirectoryPath_cases:
  "getFileDirectoryPath fp root =
     (if fp = [] then ''${workspaceFolder}''
      else if root \<noteq> [] \<and> startsWith fp root then
        (let relativePath = stripLeadingSlash (substringFrom fp (int (length root)));
             relativeDirPath = take (nat (lastIndexOf relativePath CHR ''/'')) relativePath
         in if relativeDirPath \<noteq> [] then ''${workspaceFolder}/'' @ relativeDirPath
            else ''${workspaceFolder}'')
      else take (nat (lastIndexOf fp CHR ''/'')) fp)"
proof -
  have "(substring fp 0 (lastIndexOf fp CHR ''/'') = fp) = (fp = [])"
    by (rule dirPath_eq_iff)
  then show ?thesis
    unfolding getFileDirectoryPath_def Let_def
    by (simp only: substring_from_zero)
qed

lemma getFileDirectoryPath_no_separator:
  assumes "fp \<noteq> []" and "CHR ''/'' \<notin> set fp" and "\<not> startsWith fp root"
  shows "getFileDirectoryPath fp root = []"
  using assms by (simp add: getFileDirectoryPath_cases lastIndexOf_absent)

section \<open>Go test symbols\<close>

text \<open>
  Claim C4. For a symbol whose \<open>filePath\<close> ends with \<^verbatim>\<open>_test.go\<close> and whose name
  starts with \<^verbatim>\<open>Test\<close>, \<^verbatim>\<open>Benchmark\<close> or \<^verbatim>\<open>Example\<close>, the configuration of
  \<open>generateGoDebugConfig\<close>, the factory of both Go frameworks, has mode \<^verbatim>\<open>test\<close>, and
  its arguments are \<^verbatim>\<open>-test.run\<close>, the anchored pattern made of \<^verbatim>\<open>^\<close>, the name and
  \<^verbatim>\<open>$\<close>, and \<^verbatim>\<open>-test.v\<close>.
\<close>

theorem go_test_symbol_config:
  assumes "endsWith (filePath symbol) ''_test.go''"
    and "startsWith (SymbolInfo.name symbol) ''Test'' \<or>
         startsWith (SymbolInfo.name symbol) ''Benchmark'' \<or>
         startsWith (SymbolInfo.name symbol) ''Example''"
  shows "mode (generateGoDebugConfig symbol) = Some ''test'' \<and>
         LanguageDebugConfig.args (generateGoDebugConfig symbol) =
           Some [''-test.run'', ''^'' @ SymbolInfo.name symbol @ ''$'', ''-test.v''] \<and>
         debugConfig goTestFramework = generateGoDebugConfig \<and>
         debugConfig goMainFramework = generateGoDebugConfig"
proof -
  from assms have "isGoTestFunction symbol" by (simp add: isGoTestFunction_def)
  then show ?thesis
    by (simp add: generateGoDebugConfig_def config_def goTestFramework_def goMainFramework_def)
qed

text \<open>The symbol \<^verbatim>\<open>TestAddition\<close> of the repository's test script.\<close>

theorem go_test_symbol_config_witness:
  "endsWith (filePath testAdditionSymbol) ''_test.go'' \<and>
   startsWith (SymbolInfo.name testAdditionSymbol) ''Test'' \<and>
   mode (debugConfig goTestFramework testAdditionSymbol) = Some ''test'' \<and>
   LanguageDebugConfig.args (debugConfig goTestFramework testAdditionSymbol) =
     Some [''-test.run'', ''^TestAddition$'', ''-test.v'']"
proof -
  have a: "endsWith (filePath testAdditionSymbol) ''_test.go''"
    by (simp add: testAdditionSymbol_def endsWith_def)
  have b: "startsWith (SymbolInfo.name testAdditionSymbol) ''Test''"
    by (simp add: testAdditionSymbol_def startsWith_def)
  from go_test_symbol_config [OF a] a b show ?thesis
    by (simp add: testAdditionSymbol_def)
qed

section \<open>Directory resolution without a separator\<close>

text \<open>
  Claim C6 says that a \<open>filePath\<close> without a separator resolves to the token
  \<^verbatim>\<open>${workspaceFolder}\<close>. The source tests for it by comparing the stripped path with
  the original, but \<^verbatim>\<open>substring(0, -1)\<close> is the empty string, so the test holds for the
  empty path only: \<^verbatim>\<open>main.go\<close> outside the workspace root resolves to the empty
  string.
\<close>

theorem getFileDirectoryPath_no_separator_example:
  "CHR ''/'' \<notin> set ''main.go'' \<and>
   getFileDirectoryPath ''main.go'' ''/workspace'' = [] \<and>
   getFileDirectoryPath ''main.go'' ''/workspace'' \<noteq> ''${workspaceFolder}''"
  by code_simp

section \<open>The Go default configuration\<close>

lemma splitSep_nonempty: "splitSep s \<noteq> []"
  by (induction s) (auto split: list.splits)

lemma pop_last: "xs \<noteq> [] \<Longrightarrow> pop xs = Some (last xs)"
  by (cases xs rule: rev_cases) (simp_all add: pop_def)

lemma goFileName_last: "goFileName fp = last (splitSep fp)"
  by (simp add: goFileName_def pop_last splitSep_nonempty)

lemma splitSep_last:
  "\<exists>pre. s = pre @ last (splitSep s) \<and>
         (\<forall>x \<in> set (last (splitSep s)). \<not> isSep x) \<and>
         (if tl (splitSep s) = [] then pre = [] else pre \<noteq> [] \<and> isSep (last pre))"
proof (induction s)
  case Nil
  show ?case by simp
next
  case (Cons c cs)
  then obtain pre where pre: "cs = pre @ last (splitSep cs)"
    "\<forall>x \<in> set (last (splitSep cs)). \<not> isSep x"
    "if tl (splitSep cs) = [] then pre = [] else pre \<noteq> [] \<and> isSep (last pre)"
    by blast
  obtain seg segs where ss: "splitSep cs = seg # segs"
    using splitSep_nonempty [of cs] by (cases "splitSep cs") auto
  show ?case
  proof (cases "isSep c")
    case True
    then have "splitSep (c # cs) = [] # splitSep cs" by simp
    with pre True ss show ?thesis
      by (intro exI [of _ "c # pre"]) (auto split: if_splits)
  next
    case False
    then have sp: "splitSep (c # cs) = (c # seg) # segs" by (simp add: ss)
    show ?thesis
    proof (cases "segs = []")
      case True
      with pre ss sp False show ?thesis
        by (intro exI [of _ "[]"]) auto
    next
      case False
      with pre ss sp show ?thesis
        by (intro exI [of _ "c # pre"]) auto
    qed
  qed
qed

lemma goFileName_decomp:
  "\<exists>pre. fp = pre @ goFileName fp \<and> (\<forall>x \<in> set (goFileName fp). \<not> isSep x) \<and>
         (pre = [] \<or> isSep (last pre))"
  using splitSep_last [of fp] by (auto simp: goFileName_last split: if_splits)

lemma endsWith_goFileName:
  assumes "\<forall>x \<in> set suf. \<not> isSep x"
  shows "endsWith (goFileName fp) suf \<longleftrightarrow> endsWith fp suf"
proof
  assume "endsWith (goFileName fp) suf"
  then obtain q where "goFileName fp = q @ suf" by (auto simp: endsWith_iff)
  moreover obtain pre where "fp = pre @ goFileName fp" using goFileName_decomp by blast
  ultimately have "fp = (pre @ q) @ suf" by simp
  then show "endsWith fp suf" unfolding endsWith_iff by blast
next
  assume "endsWith fp suf"
  then obtain q where q: "fp = q @ suf" by (auto simp: endsWith_iff)
  obtain pre where pre: "fp = pre @ goFileName fp" "pre = [] \<or> isSep (last pre)"
    using goFileName_decomp by blast
  from q pre(1) have "pre @ goFileName fp = q @ suf" by simp
  then obtain us where us: "pre = q @ us \<and> us @ goFileName fp = suf \<or>
      pre @ us = q \<and> goFileName fp = us @ suf"
    by (auto simp: append_eq_append_conv2)
  show "endsWith (goFileName fp) suf"
  proof (cases "us = []")
    case True
    with us show ?thesis by (auto simp: endsWith_iff)
  next
    case False
    from us show ?thesis
    proof
      assume a: "pre = q @ us \<and> us @ goFileName fp = suf"
      with False have "pre \<noteq> []" "last pre = last us" by auto
      with pre(2) have "isSep (last us)" by simp
      moreover from a False have "last us \<in> set suf" by auto
      ultimately show ?thesis using assms by blast
    next
      assume "pre @ us = q \<and> goFileName fp = us @ suf"
      then show ?thesis by (auto simp: endsWith_iff)
    qed
  qed
qed

lemma endsWith_test_go: "endsWith (goFileName fp) ''_test.go'' \<longleftrightarrow> endsWith fp ''_test.go''"
  by (rule endsWith_goFileName) (simp add: isSep_def)

lemma main_go_not_test: "goFileName fp = ''main.go'' \<Longrightarrow> \<not> endsWith fp ''_test.go''"
  using endsWith_test_go [of fp] by (simp add: endsWith_def)

text \<open>
  Claim C10. The Go \<open>defaultConfig\<close> has type \<^verbatim>\<open>go\<close> and request \<^verbatim>\<open>launch\<close>
  throughout and classifies by the file name: a file named exactly \<^verbatim>\<open>main.go\<close> gives
  mode \<^verbatim>\<open>debug\<close> and program \<^verbatim>\<open>${file}\<close>; a path ending in \<^verbatim>\<open>_test.go\<close> gives
  mode \<^verbatim>\<open>test\<close>, the resolved directory as program and the arguments
  \<^verbatim>\<open>-test.v\<close>; every other path gives mode \<^verbatim>\<open>auto\<close> and the resolved directory as
  program.
\<close>

theorem golangDefaultConfig_by_file_name:
  "type (golangDefaultConfig fp root) = ''go'' \<and>
   request (golangDefaultConfig fp root) = launch \<and>
   (goFileName fp = ''main.go'' \<longrightarrow>
      mode (golangDefaultConfig fp root) = Some ''debug'' \<and>
      program (golangDefaultConfig fp root) = Some ''${file}'') \<and>
   (endsWith fp ''_test.go'' \<longrightarrow>
      mode (golangDefaultConfig fp root) = Some ''test'' \<and>
      program (golangDefaultConfig fp root) = Some (getFileDirectoryPath fp root) \<and>
      LanguageDebugConfig.args (golangDefaultConfig fp root) = Some [''-test.v'']) \<and>
   (goFileName fp \<noteq> ''main.go'' \<and> \<not> endsWith fp ''_test.go'' \<longrightarrow>
      mode (golangDefaultConfig fp root) = Some ''auto'' \<and>
      program (golangDefaultConfig fp root) = Some (getFileDirectoryPath fp root))"
  using main_go_not_test [of fp]
  by (auto simp: golangDefaultConfig_def config_def Let_def endsWith_test_go)

theorem golangDefaultConfig_by_file_name_witness:
  "goFileName ''/workspace/cmd/main.go'' = ''main.go'' \<and>
   mode (golangDefaultConfig ''/workspace/cmd/main.go'' ''/workspace'') = Some ''debug'' \<and>
   program (golangDefaultConfig ''/workspace/cmd/main.go'' ''/workspace'') = Some ''${file}'' \<and>
   endsWith ''/workspace/math_test.go'' ''_test.go'' \<and>
   mode (golangDefaultConfig ''/workspace/math_test.go'' ''/workspace'') = Some ''test'' \<and>
   program (golangDefaultConfig ''/workspace/math_test.go'' ''/workspace'') =
     Some ''${workspaceFolder}'' \<and>
   LanguageDebugConfig.args (golangDefaultConfig ''/workspace/math_test.go'' ''/workspace'') =
     Some [''-test.v''] \<and>
   goFileName ''/workspace/pkg/utils.go'' \<noteq> ''main.go'' \<and>
   \<not> endsWith ''/workspace/pkg/utils.go'' ''_test.go'' \<and>
   mode (golangDefaultConfig ''/workspace/pkg/utils.go'' ''/workspace'') = Some ''auto'' \<and>
   program (golangDefaultConfig ''/workspace/pkg/utils.go'' ''/workspace'') =
     Some ''${workspaceFolder}/pkg''"
proof -
  have a: "goFileName ''/workspace/cmd/main.go'' = ''main.go''" by code_simp
  have b: "endsWith ''/workspace/math_test.go'' ''_test.go''" by code_simp
  have c: "goFileName ''/workspace/pkg/utils.go'' \<noteq> ''main.go''" by code_simp
  have d: "\<not> endsWith ''/workspace/pkg/utils.go'' ''_test.go''" by code_simp
  have e: "getFileDirectoryPath ''/workspace/math_test.go'' ''/workspace'' = ''${workspaceFolder}''"
    by code_simp
  have f: "getFileDirectoryPath ''/workspace/pkg/utils.go'' ''/workspace'' = ''${workspaceFolder}/pkg''"
    by code_simp
  from golangDefaultConfig_by_file_name [of "''/workspace/cmd/main.go''" "''/workspace''"]
    golangDefaultConfig_by_file_name [of "''/workspace/math_test.go''" "''/workspace''"]
    golangDefaultConfig_by_file_name [of "''/workspace/pkg/utils.go''" "''/workspace''"]
    a b c d
  show ?thesis unfolding e f by simp
qed

section \<open>Workspace-relative paths\<close>



















end
